theory Spec2Isabelle
  imports Main "HOL-Library.Sublist"
begin

section \<open>The Nvidia store buyer (stores/nvidia.py)\<close>

text \<open>
  A shallow embedding of the class \<open>NvidiaBuyer\<close>. Every method becomes a function that
  takes the object's fields as a record and returns the updated record next to its
  result. An exception is a value of type \<open>exn\<close> on the left of a sum. The HTTP session
  and the notification handler are collaborators of the class: they are taken as a
  parameter (\<open>world\<close>), a script that says what the k-th request answers and whether the
  k-th notification is delivered.
\<close>

subsection \<open>Strings\<close>

text \<open>
  A Python \<open>str\<close> is modelled as a \<open>string\<close>. \<open>lower\<close> is \<open>str.lower\<close> on ASCII text
  (the letters A to Z move to a to z, every other character stays), which is what locale
  codes are made of.
\<close>

definition lower_char :: "char \<Rightarrow> char" where
  "lower_char c =
     (let n = (of_char c :: nat) in if 65 \<le> n \<and> n \<le> 90 then char_of (n + 32) else c)"

definition lower :: "string \<Rightarrow> string" where
  "lower s = map lower_char s"

text \<open>Python's \<open>needle in hay\<close> on two strings: \<open>needle\<close> occurs as a contiguous run.\<close>

fun str_contains :: "string \<Rightarrow> string \<Rightarrow> bool" where
  "str_contains needle [] = (needle = [])"
| "str_contains needle (c # cs) = (prefix needle (c # cs) \<or> str_contains needle cs)"

subsection \<open>Exceptions and JSON values\<close>

text \<open>
  \<open>RequestException\<close> stands for \<open>requests.exceptions.RequestException\<close> and its
  subclasses, the only class the source catches. \<open>RecursionError\<close> is what the
  interpreter raises when a call goes beyond its recursion limit.
\<close>

datatype exn = RequestException | ValueError | TypeError | KeyError | RecursionError

text \<open>
  What \<open>json.load\<close> and \<open>response.json()\<close> return. An object is the list of the items of
  the parsed dict. Numbers are not inspected by the source.
\<close>

datatype json =
    JNull
  | JBool bool
  | JNum int
  | JStr string
  | JArr "json list"
  | JObj "(string \<times> json) list"

text \<open>\<open>value[key]\<close> with a string key: only a dict accepts it, and a missing key raises.\<close>

fun py_getitem :: "json \<Rightarrow> string \<Rightarrow> exn + json" where
  "py_getitem (JObj kvs) key = (case map_of kvs key of None \<Rightarrow> Inl KeyError | Some v \<Rightarrow> Inr v)"
| "py_getitem _ key = Inl TypeError"

text \<open>
  \<open>key in value\<close> with a string key: a key of a dict, an element of a list, a substring
  of a string; the other values are not iterable.
\<close>

fun py_in :: "string \<Rightarrow> json \<Rightarrow> exn + bool" where
  "py_in key (JObj kvs) = Inr (key \<in> fst ` set kvs)"
| "py_in key (JArr xs) = Inr (JStr key \<in> set xs)"
| "py_in key (JStr s) = Inr (str_contains key s)"
| "py_in key _ = Inl TypeError"

subsection \<open>Module constants\<close>

definition GPU_DISPLAY_NAMES :: "(string \<times> string) list" where
  "GPU_DISPLAY_NAMES =
     [(''2060S'', ''NVIDIA GEFORCE RTX 2060 SUPER''),
      (''3080'', ''NVIDIA GEFORCE RTX 3080''),
      (''3090'', ''NVIDIA GEFORCE RTX 3090'')]"

definition CURRENCY_LOCALE_MAP :: "(string \<times> string) list" where
  "CURRENCY_LOCALE_MAP =
     [(''en_us'', ''USD''), (''en_gb'', ''GBP''), (''de_de'', ''EUR''), (''fr_fr'', ''EUR''),
      (''it_it'', ''EUR''), (''es_es'', ''EUR''), (''nl_nl'', ''EUR''), (''sv_se'', ''SEK''),
      (''de_at'', ''EUR''), (''fr_be'', ''EUR''), (''da_dk'', ''DKK''), (''cs_cz'', ''CZK'')]"

text \<open>\<open>CURRENCY_LOCALE_MAP.get(locale, "USD")\<close>, as the stock request computes it.\<close>

definition currency_of :: "string \<Rightarrow> string" where
  "currency_of l = (case map_of CURRENCY_LOCALE_MAP l of None \<Rightarrow> ''USD'' | Some c \<Rightarrow> c)"

text \<open>The constant is defined by the module and read by none of its functions.\<close>

definition CART_SUCCESS_CODES :: "int set" where
  "CART_SUCCESS_CODES = {201, 200}"

datatype API_STATUS = ONLINE | OFFLINE

subsection \<open>Requests, responses and what a run leaves behind\<close>

record response =
  status_code :: int
  resp_text :: string
  resp_json :: "exn + json"

text \<open>
  \<open>resp_json\<close> is what \<open>response.json()\<close> does: it returns the parsed body or raises.
  The three requests of the source, with the values it interpolates or sends: locale,
  currency and product id; locale; locale header, token header and product id.
\<close>

datatype request =
    StockGet string string json
  | TokenGet string
  | CartPost string json json

datatype notification = BackOnline | InStockAt json | CartError

datatype log_entry =
    StockCheckStart json
  | BuyStart API_STATUS
  | ApiBackUp
  | AddedToCart
  | ConnectionError
  | UnexpectedReply
  | StockResponseCode int
  | Body string
  | SessionTokenIs json
  | Printed json
  | CartFailedWith int
  | Raised exn
  | TokenError
  | TokenStatus int

datatype event =
    Log log_entry
  | Request request
  | Notify notification
  | OpenBrowser
  | Spin int

text \<open>
  The collaborators: \<open>transport k r\<close> is the outcome of the k-th request of the run when
  it is \<open>r\<close> (a response, or an exception raised by the session), \<open>sink k n\<close> is the
  exception the notification handler raises at the k-th notification, if any.
\<close>

record world =
  transport :: "nat \<Rightarrow> request \<Rightarrow> exn + response"
  sink :: "nat \<Rightarrow> notification \<Rightarrow> exn option"

text \<open>
  The fields of the object that its methods read or write. \<open>self_locale\<close> is the field
  \<open>locale\<close>. \<open>api_online\<close> is the attribute that \<open>updateApiStatus\<close> assigns; it does
  not exist before the first call. \<open>calls\<close>, \<open>sent\<close> and \<open>trace\<close> are not fields of
  the source: they count the requests and the notifications made so far and record, in
  order, what the object did.
\<close>

record buyer =
  product_ids :: "json list"
  cli_locale :: string
  self_locale :: string
  gpu :: string
  gpu_long_name :: string
  enabled :: bool
  attempt :: int
  api_status :: API_STATUS
  api_online :: "API_STATUS option"
  calls :: nat
  sent :: nat
  trace :: "event list"

definition emit :: "event \<Rightarrow> buyer \<Rightarrow> buyer" where
  "emit e s = s\<lparr>trace := trace s @ [e]\<rparr>"

definition request :: "world \<Rightarrow> request \<Rightarrow> buyer \<Rightarrow> (exn + response) \<times> buyer" where
  "request w r s = (transport w (calls s) r, s\<lparr>calls := calls s + 1, trace := trace s @ [Request r]\<rparr>)"

definition send_notification :: "world \<Rightarrow> notification \<Rightarrow> buyer \<Rightarrow> (exn + unit) \<times> buyer" where
  "send_notification w n s =
     (let s' = s\<lparr>sent := sent s + 1, trace := trace s @ [Notify n]\<rparr>
      in case sink w (sent s) n of None \<Rightarrow> (Inr (), s') | Some e \<Rightarrow> (Inl e, s'))"

text \<open>\<open>try: ... except requests.exceptions.RequestException: handler\<close>.\<close>

definition except_RequestException ::
  "(exn + 'a) \<times> buyer \<Rightarrow> (buyer \<Rightarrow> (exn + 'a) \<times> buyer) \<Rightarrow> (exn + 'a) \<times> buyer" where
  "except_RequestException r handler =
     (case r of
        (Inl e, s) \<Rightarrow> if e = RequestException then handler s else (Inl e, s)
      | (Inr v, s) \<Rightarrow> (Inr v, s))"

subsection \<open>Locale and catalog\<close>

text \<open>\<open>map_locales\<close> reads \<open>self.cli_locale\<close> only, which is its argument here.\<close>

definition map_locales :: "string \<Rightarrow> string" where
  "map_locales cl =
     (if cl = ''de_at'' then ''de_de''
      else if cl = ''fr_be'' then ''fr_fr''
      else if cl = ''da_dk'' then ''en_gb''
      else if cl = ''cs_cz'' then ''en_gb''
      else cl)"

text \<open>
  The locale resolver as \<open>__init__\<close> runs it: \<open>self.cli_locale = locale.lower()\<close>, then
  \<open>self.locale = self.map_locales()\<close>.
\<close>

definition resolve_locale :: "string \<Rightarrow> string" where
  "resolve_locale l = map_locales (lower l)"

text \<open>
  The remapping table in the words of the specification, to compare \<open>resolve_locale\<close>
  with.
\<close>

definition remap_table :: "(string \<times> string) list" where
  "remap_table =
     [(''de_at'', ''de_de''), (''fr_be'', ''fr_fr''), (''da_dk'', ''en_gb''), (''cs_cz'', ''en_gb'')]"

text \<open>
  \<open>PRODUCT_IDS\<close> is the content of a data file that is read at import time; it is the
  first argument. The entry is \<open>PRODUCT_IDS[self.cli_locale][self.gpu]\<close>.
\<close>

definition catalog_entry :: "json \<Rightarrow> string \<Rightarrow> string \<Rightarrow> exn + json" where
  "catalog_entry PRODUCT_IDS l family =
     (case py_getitem PRODUCT_IDS l of Inl e \<Rightarrow> Inl e | Inr by_family \<Rightarrow> py_getitem by_family family)"

definition get_product_ids :: "json \<Rightarrow> buyer \<Rightarrow> exn + buyer" where
  "get_product_ids PRODUCT_IDS s =
     (case catalog_entry PRODUCT_IDS (cli_locale s) (gpu s) of
        Inl e \<Rightarrow> Inl e
      | Inr (JArr ids) \<Rightarrow> Inr (s\<lparr>product_ids := ids\<rparr>)
      | Inr (JStr i) \<Rightarrow> Inr (s\<lparr>product_ids := [JStr i]\<rparr>)
      | Inr _ \<Rightarrow> Inr s)"

text \<open>
  \<open>__init__\<close>. The fields that no modelled method reads (session, cookie jar, start
  time, test flag, interval, auto-buy flag) are left out.
\<close>

definition new_buyer :: "json \<Rightarrow> string \<Rightarrow> string \<Rightarrow> exn + buyer" where
  "new_buyer PRODUCT_IDS g l =
     (case map_of GPU_DISPLAY_NAMES g of
        None \<Rightarrow> Inl KeyError
      | Some long_name \<Rightarrow>
          get_product_ids PRODUCT_IDS
            \<lparr>product_ids = [], cli_locale = lower l, self_locale = map_locales (lower l), gpu = g,
             gpu_long_name = long_name, enabled = True, attempt = 0, api_status = ONLINE,
             api_online = None, calls = 0, sent = 0, trace = []\<rparr>)"

subsection \<open>API status\<close>

definition updateApiStatus :: "world \<Rightarrow> API_STATUS \<Rightarrow> buyer \<Rightarrow> (exn + unit) \<times> buyer" where
  "updateApiStatus w status s =
     (if api_status s = OFFLINE \<and> status = ONLINE then
        (case send_notification w BackOnline (emit (Log ApiBackUp) s) of
           (Inl e, s1) \<Rightarrow> (Inl e, s1)
         | (Inr _, s1) \<Rightarrow> (Inr (), s1\<lparr>api_online := Some status\<rparr>))
      else (Inr (), s\<lparr>api_online := Some status\<rparr>))"

subsection \<open>Stock poll\<close>

definition is_in_stock :: "world \<Rightarrow> json \<Rightarrow> buyer \<Rightarrow> (exn + bool) \<times> buyer" where
  "is_in_stock w product_id s =
     except_RequestException
       (case request w (StockGet (self_locale s) (currency_of (self_locale s)) product_id) s of
          (Inl e, s1) \<Rightarrow> (Inl e, s1)
        | (Inr r, s1) \<Rightarrow>
            (let s2 = emit (Log (StockResponseCode (status_code r))) s1;
                 s3 = (if status_code r \<noteq> 200 then emit (Log (Body (resp_text r))) s2 else s2)
             in (Inr (str_contains ''PRODUCT_INVENTORY_IN_STOCK'' (resp_text r)), s3)))
       (\<lambda>s1. (Inr False, emit (Log UnexpectedReply) s1))"

subsection \<open>Session token and cart\<close>

text \<open>
  What \<open>get_session_token\<close> hands to its caller: a pair, a bare boolean, or \<open>None\<close> when
  the function ends without a \<open>return\<close>.
\<close>

datatype token_result = PTuple bool json | PBool bool | PNone

definition get_session_token :: "world \<Rightarrow> buyer \<Rightarrow> (exn + token_result) \<times> buyer" where
  "get_session_token w s =
     except_RequestException
       (case request w (TokenGet (self_locale s)) s of
          (Inl e, s1) \<Rightarrow> (Inl e, s1)
        | (Inr r, s1) \<Rightarrow>
            if status_code r = 200 then
              (case resp_json r of
                 Inl e \<Rightarrow> (Inl e, s1)
               | Inr response_json \<Rightarrow>
                   (case py_in ''session_token'' response_json of
                      Inl e \<Rightarrow> (Inl e, s1)
                    | Inr present \<Rightarrow>
                        if \<not> present then (Inr (PTuple False (JStr [])), emit (Log TokenError) s1)
                        else (case py_getitem response_json ''session_token'' of
                                Inl e \<Rightarrow> (Inl e, s1)
                              | Inr token \<Rightarrow> (Inr (PTuple True token), s1))))
            else (Inr PNone, emit (Log (TokenStatus (status_code r))) s1))
       (\<lambda>s1. (Inr (PBool False), emit (Log UnexpectedReply) s1))"

text \<open>
  The body of the \<open>try\<close> of \<open>add_to_cart\<close>. \<open>success, token = self.get_session_token()\<close>
  unpacks a pair and raises \<open>TypeError\<close> on anything else.
\<close>

definition add_to_cart_try :: "world \<Rightarrow> json \<Rightarrow> buyer \<Rightarrow> (exn + bool) \<times> buyer" where
  "add_to_cart_try w product_id s =
     (case get_session_token w s of
        (Inl e, s1) \<Rightarrow> (Inl e, s1)
      | (Inr (PTuple success token), s1) \<Rightarrow>
          if \<not> success then (Inr False, s1)
          else
            (case request w (CartPost (self_locale s1) token product_id)
                    (emit (Log (SessionTokenIs token)) s1) of
               (Inl e, s2) \<Rightarrow> (Inl e, s2)
             | (Inr r, s2) \<Rightarrow>
                 if status_code r = 200 then
                   (case resp_json r of
                      Inl e \<Rightarrow> (Inl e, s2)
                    | Inr response_json \<Rightarrow>
                        (let s3 = emit (Log (Printed response_json)) s2
                         in case py_getitem response_json ''message'' of
                              Inl e \<Rightarrow> (Inl e, s3)
                            | Inr message \<Rightarrow>
                                (case py_in ''successfully'' message of
                                   Inl e \<Rightarrow> (Inl e, s3)
                                 | Inr found \<Rightarrow> (Inr found, s3))))
                 else
                   (Inr False,
                    emit (Log (CartFailedWith (status_code r)))
                      (emit (Log (Body (resp_text r))) s2)))
      | (Inr _, s1) \<Rightarrow> (Inl TypeError, s1))"

definition add_to_cart :: "world \<Rightarrow> json \<Rightarrow> buyer \<Rightarrow> (exn + bool) \<times> buyer" where
  "add_to_cart w product_id s =
     except_RequestException (add_to_cart_try w product_id s)
       (\<lambda>s1. (Inr False, emit (Log UnexpectedReply) (emit (Log (Raised RequestException)) s1)))"

subsection \<open>The worker\<close>


subsection \<open>Concrete catalog, buyer and scripts\<close>

text \<open>
  A catalog with entries under a remapped locale and under its target, the buyer that
  \<open>__init__\<close> builds from it for family 3080 and locale de_at, and a few scripted
  collaborators. They are the inputs at which the statements below are run.
\<close>

definition demo_catalog :: json where
  "demo_catalog =
     JObj [(''de_at'', JObj [(''3080'', JArr [JStr ''5438792800'', JStr ''5438792801'']),
                             (''3090'', JStr ''5438792700'')]),
           (''de_de'', JObj [(''3080'', JArr [JStr ''5438792300''])])]"

definition demo_buyer :: buyer where
  "demo_buyer =
     \<lparr>product_ids = [JStr ''5438792800'', JStr ''5438792801''], cli_locale = ''de_at'',
      self_locale = ''de_de'', gpu = ''3080'', gpu_long_name = ''NVIDIA GEFORCE RTX 3080'',
      enabled = True, attempt = 0, api_status = ONLINE, api_online = None, calls = 0, sent = 0,
      trace = []\<rparr>"

definition demo_id :: json where
  "demo_id = JStr ''5438792800''"

definition answer :: "int \<Rightarrow> string \<Rightarrow> exn + json \<Rightarrow> exn + response" where
  "answer code body parsed = Inr \<lparr>status_code = code, resp_text = body, resp_json = parsed\<rparr>"

definition stock_yes :: "int \<Rightarrow> exn + response" where
  "stock_yes code = answer code ''status: PRODUCT_INVENTORY_IN_STOCK'' (Inl ValueError)"

definition token_ok :: "exn + response" where
  "token_ok = answer 200 [] (Inr (JObj [(''session_token'', JStr ''abc'')]))"

definition cart_ok :: "int \<Rightarrow> exn + response" where
  "cart_ok code = answer code [] (Inr (JObj [(''message'', JStr ''Product added successfully'')]))"

definition quiet :: "nat \<Rightarrow> notification \<Rightarrow> exn option" where
  "quiet k n = None"

text \<open>Every request is answered with status 503 and a body that is not JSON.\<close>

definition world_503 :: world where
  "world_503 = \<lparr>transport = (\<lambda>k r. answer 503 [] (Inl ValueError)), sink = quiet\<rparr>"

text \<open>Every request fails in the transport.\<close>

definition world_down :: world where
  "world_down = \<lparr>transport = (\<lambda>k r. Inl RequestException), sink = quiet\<rparr>"

text \<open>The token is granted and the cart request is answered 201 with the success message.\<close>

definition world_cart_201 :: world where
  "world_cart_201 =
     \<lparr>transport = (\<lambda>k r. case r of CartPost _ _ _ \<Rightarrow> cart_ok 201 | _ \<Rightarrow> token_ok),
      sink = quiet\<rparr>"

text \<open>The stock request is answered 503 with the marker in the body.\<close>

definition world_stock_503 :: world where
  "world_stock_503 = \<lparr>transport = (\<lambda>k r. stock_yes 503), sink = quiet\<rparr>"






















subsection \<open>What every step preserves\<close>


subsection \<open>The order of the requests\<close>






lemmas demo_defs = demo_buyer_def demo_id_def answer_def stock_yes_def token_ok_def cart_ok_def
  quiet_def

lemmas op_defs = request_def emit_def send_notification_def except_RequestException_def

section \<open>Properties\<close>

subsection \<open>Strings\<close>

lemma lower_char_idem: "lower_char (lower_char c) = lower_char c"
  by (simp add: lower_char_def Let_def)

lemma lower_idem: "lower (lower l) = lower l"
  by (simp add: lower_def lower_char_idem)

lemma str_contains_sublist: "str_contains needle hay = sublist needle hay"
  by (induction hay) (simp_all add: sublist_Cons_right)

lemma str_contains_iff:
  "str_contains needle hay \<longleftrightarrow> (\<exists>before after. hay = before @ needle @ after)"
  by (simp add: str_contains_sublist sublist_def)

subsection \<open>Locale resolver\<close>

text \<open>
  C9. The resolver lowercases its input and then remaps it. When the lowercased input is
  one of the four codes of the remap table (de_at, fr_be, da_dk, cs_cz) the result is the
  documented target (de_de, fr_fr, en_gb, en_gb); for every other input the result is the
  lowercased input. The function is total: there is no error path.
\<close>

theorem resolve_locale_table:
  "(map_of remap_table (lower l) = Some target \<longrightarrow> resolve_locale l = target) \<and>
   (map_of remap_table (lower l) = None \<longrightarrow> resolve_locale l = lower l)"
  by (auto simp: remap_table_def resolve_locale_def map_locales_def split: if_splits)

text \<open>
  The four codes of the table, one of them in upper case, and a locale outside the table.
\<close>

theorem resolve_locale_table_witness:
  "map_of remap_table (lower ''DE_AT'') = Some ''de_de'' \<and> resolve_locale ''DE_AT'' = ''de_de'' \<and>
   map_of remap_table (lower ''de_at'') = Some ''de_de'' \<and> resolve_locale ''de_at'' = ''de_de'' \<and>
   map_of remap_table (lower ''fr_be'') = Some ''fr_fr'' \<and> resolve_locale ''fr_be'' = ''fr_fr'' \<and>
   map_of remap_table (lower ''da_dk'') = Some ''en_gb'' \<and> resolve_locale ''da_dk'' = ''en_gb'' \<and>
   map_of remap_table (lower ''cs_cz'') = Some ''en_gb'' \<and> resolve_locale ''cs_cz'' = ''en_gb'' \<and>
   map_of remap_table (lower ''en_US'') = None \<and> resolve_locale ''en_US'' = lower ''en_US'' \<and>
   lower ''en_US'' = ''en_us''"
proof -
  have a: "map_of remap_table (lower ''DE_AT'') = Some ''de_de''" by code_simp
  have b: "map_of remap_table (lower ''de_at'') = Some ''de_de''" by code_simp
  have c: "map_of remap_table (lower ''fr_be'') = Some ''fr_fr''" by code_simp
  have d: "map_of remap_table (lower ''da_dk'') = Some ''en_gb''" by code_simp
  have e: "map_of remap_table (lower ''cs_cz'') = Some ''en_gb''" by code_simp
  have f: "map_of remap_table (lower ''en_US'') = None" by code_simp
  have g: "lower ''en_US'' = ''en_us''" by code_simp
  from a b c d e f g
    resolve_locale_table [of "''DE_AT''" "''de_de''"]
    resolve_locale_table [of "''de_at''" "''de_de''"]
    resolve_locale_table [of "''fr_be''" "''fr_fr''"]
    resolve_locale_table [of "''da_dk''" "''en_gb''"]
    resolve_locale_table [of "''cs_cz''" "''en_gb''"]
    resolve_locale_table [of "''en_US''" "''en_us''"]
  show ?thesis by blast
qed

text \<open>
  C10. Locale resolution is idempotent: the remapping applied to its own output returns
  that output, and so does the whole resolver (lowercasing, then remapping) applied to
  its own output, for every input string.
\<close>

theorem resolve_locale_idempotent:
  "map_locales (map_locales cl) = map_locales cl \<and>
   resolve_locale (resolve_locale l) = resolve_locale l"
proof
  show "map_locales (map_locales cl) = map_locales cl"
    by (simp add: map_locales_def)
next
  have fixed: "lower ''de_de'' = ''de_de''" "lower ''fr_fr'' = ''fr_fr''" "lower ''en_gb'' = ''en_gb''"
    by (simp_all add: lower_def lower_char_def)
  show "resolve_locale (resolve_locale l) = resolve_locale l"
    by (simp add: resolve_locale_def map_locales_def lower_idem fixed)
qed

subsection \<open>Stock poll\<close>

text \<open>
  C8. When the stock request is answered, whatever the status code, the poll returns
  without raising, and it returns true exactly when the marker
  PRODUCT_INVENTORY_IN_STOCK occurs as a substring of the raw body. So a body without
  the marker is not in stock, and a body with the marker is in stock also under a status
  that is not 2xx.
\<close>

theorem is_in_stock_iff_marker:
  assumes "transport w (calls s) (StockGet (self_locale s) (currency_of (self_locale s)) product_id)
           = Inr r"
  shows "fst (is_in_stock w product_id s) =
         Inr (\<exists>before after. resp_text r = before @ ''PRODUCT_INVENTORY_IN_STOCK'' @ after)"
  using assms by (simp add: is_in_stock_def op_defs Let_def str_contains_iff)

text \<open>A 503 answer with the marker is in stock, a 503 answer with an empty body is not.\<close>

theorem is_in_stock_iff_marker_witness:
  "transport world_stock_503 (calls demo_buyer)
     (StockGet (self_locale demo_buyer) (currency_of (self_locale demo_buyer)) demo_id)
     = Inr \<lparr>status_code = 503, resp_text = ''status: PRODUCT_INVENTORY_IN_STOCK'',
            resp_json = Inl ValueError\<rparr> \<and>
   fst (is_in_stock world_stock_503 demo_id demo_buyer) = Inr True \<and>
   transport world_503 (calls demo_buyer)
     (StockGet (self_locale demo_buyer) (currency_of (self_locale demo_buyer)) demo_id)
     = Inr \<lparr>status_code = 503, resp_text = [], resp_json = Inl ValueError\<rparr> \<and>
   fst (is_in_stock world_503 demo_id demo_buyer) = Inr False"
proof -
  let ?yes = "\<lparr>status_code = 503, resp_text = ''status: PRODUCT_INVENTORY_IN_STOCK'',
               resp_json = Inl ValueError\<rparr>"
  let ?no = "\<lparr>status_code = 503, resp_text = [], resp_json = Inl ValueError\<rparr>"
  have h: "transport world_stock_503 (calls demo_buyer)
     (StockGet (self_locale demo_buyer) (currency_of (self_locale demo_buyer)) demo_id) = Inr ?yes"
    by (simp add: world_stock_503_def demo_defs)
  have "str_contains ''PRODUCT_INVENTORY_IN_STOCK'' (resp_text ?yes)"
    by simp
  then have m: "\<exists>before after. resp_text ?yes = before @ ''PRODUCT_INVENTORY_IN_STOCK'' @ after"
    by (simp only: str_contains_iff)
  have h2: "transport world_503 (calls demo_buyer)
     (StockGet (self_locale demo_buyer) (currency_of (self_locale demo_buyer)) demo_id) = Inr ?no"
    by (simp add: world_503_def demo_defs)
  have n: "\<not> (\<exists>before after. resp_text ?no = before @ ''PRODUCT_INVENTORY_IN_STOCK'' @ after)"
    by simp
  from is_in_stock_iff_marker [OF h] is_in_stock_iff_marker [OF h2] h h2 m n
  show ?thesis by simp
qed

text \<open>
  C4, as the code has it. When the stock request raises a network exception, the poll
  returns false without propagating anything, and it makes no status update: it adds
  the request and one log line to the trace, and the stored API status after the poll
  is the one before it.
\<close>

theorem is_in_stock_transport_failure:
  assumes "transport w (calls s) (StockGet (self_locale s) (currency_of (self_locale s)) product_id)
           = Inl RequestException"
  shows "is_in_stock w product_id s =
           (Inr False,
            s\<lparr>calls := calls s + 1,
              trace := trace s @
                [Request (StockGet (self_locale s) (currency_of (self_locale s)) product_id),
                 Log UnexpectedReply]\<rparr>) \<and>
         api_status (snd (is_in_stock w product_id s)) = api_status s \<and>
         api_online (snd (is_in_stock w product_id s)) = api_online s"
  using assms by (simp add: is_in_stock_def op_defs)

theorem is_in_stock_transport_failure_witness:
  "transport world_down (calls demo_buyer)
     (StockGet (self_locale demo_buyer) (currency_of (self_locale demo_buyer)) demo_id)
     = Inl RequestException \<and>
   (is_in_stock world_down demo_id demo_buyer =
      (Inr False,
       demo_buyer\<lparr>calls := calls demo_buyer + 1,
         trace := trace demo_buyer @
           [Request (StockGet (self_locale demo_buyer) (currency_of (self_locale demo_buyer)) demo_id),
            Log UnexpectedReply]\<rparr>) \<and>
    api_status (snd (is_in_stock world_down demo_id demo_buyer)) = api_status demo_buyer \<and>
    api_online (snd (is_in_stock world_down demo_id demo_buyer)) = api_online demo_buyer)"
proof -
  have h: "transport world_down (calls demo_buyer)
     (StockGet (self_locale demo_buyer) (currency_of (self_locale demo_buyer)) demo_id)
     = Inl RequestException"
    by (simp add: world_down_def)
  show ?thesis
    by (rule conjI [OF h is_in_stock_transport_failure [OF h]])
qed

text \<open>
  C4 as stated fails: with every request failing in the transport, the poll of a fresh
  buyer returns false and the stored status is still ONLINE afterwards; the attribute
  that \<open>updateApiStatus\<close> assigns has not been written at all.
\<close>

theorem is_in_stock_transport_failure_counterexample:
  "fst (is_in_stock world_down demo_id demo_buyer) = Inr False \<and>
   api_status (snd (is_in_stock world_down demo_id demo_buyer)) = ONLINE \<and>
   api_status (snd (is_in_stock world_down demo_id demo_buyer)) \<noteq> OFFLINE \<and>
   api_online (snd (is_in_stock world_down demo_id demo_buyer)) = None \<and>
   trace (snd (is_in_stock world_down demo_id demo_buyer)) =
     [Request (StockGet ''de_de'' ''EUR'' demo_id), Log UnexpectedReply]"
  by (simp add: is_in_stock_def op_defs world_down_def demo_defs currency_of_def
      CURRENCY_LOCALE_MAP_def)

subsection \<open>Session token and cart\<close>

text \<open>
  The two outcomes of \<open>get_session_token\<close> that are pairs: status 200 and a JSON object
  with the field gives (true, token), status 200 and a JSON object without it gives
  (false, "").
\<close>

lemma get_session_token_field_present:
  assumes "transport w (calls s) (TokenGet (self_locale s)) = Inr r"
    and "status_code r = 200"
    and "resp_json r = Inr (JObj kvs)"
    and "map_of kvs ''session_token'' = Some token"
  shows "fst (get_session_token w s) = Inr (PTuple True token)"
proof -
  from assms(4) have "''session_token'' \<in> fst ` set kvs"
    by (metis map_of_eq_None_iff option.distinct(1))
  with assms show ?thesis
    by (simp add: get_session_token_def op_defs)
qed

lemma get_session_token_field_absent:
  assumes "transport w (calls s) (TokenGet (self_locale s)) = Inr r"
    and "status_code r = 200"
    and "resp_json r = Inr (JObj kvs)"
    and "map_of kvs ''session_token'' = None"
  shows "fst (get_session_token w s) = Inr (PTuple False (JStr []))"
proof -
  from assms(4) have "''session_token'' \<notin> fst ` set kvs"
    by (simp add: map_of_eq_None_iff)
  with assms show ?thesis
    by (simp add: get_session_token_def op_defs)
qed

text \<open>
  C1, at the inputs where the code departs from it. A 503 answer to the token request
  makes \<open>get_session_token\<close> return \<open>None\<close>, and a transport failure makes it return the
  bare value \<open>False\<close>: neither is the pair (false, ""). \<open>add_to_cart\<close>, which unpacks a
  pair, raises \<open>TypeError\<close> on both.
\<close>

theorem get_session_token_failure_results:
  "fst (get_session_token world_503 demo_buyer) = Inr PNone \<and>
   fst (get_session_token world_down demo_buyer) = Inr (PBool False) \<and>
   fst (add_to_cart world_503 demo_id demo_buyer) = Inl TypeError \<and>
   fst (add_to_cart world_down demo_id demo_buyer) = Inl TypeError"
  by (simp add: add_to_cart_def add_to_cart_try_def get_session_token_def world_503_def
      world_down_def demo_defs op_defs)

text \<open>
  C7, at the input where the code departs from it. 201 is one of the module's cart
  success codes, and a 201 answer whose message contains the success substring makes
  \<open>add_to_cart\<close> return false.
\<close>

theorem add_to_cart_rejects_201:
  "201 \<in> CART_SUCCESS_CODES \<and>
   transport world_cart_201 1 (CartPost ''de_de'' (JStr ''abc'') demo_id) =
     Inr \<lparr>status_code = 201, resp_text = [],
          resp_json = Inr (JObj [(''message'', JStr ''Product added successfully'')])\<rparr> \<and>
   fst (add_to_cart world_cart_201 demo_id demo_buyer) = Inr False \<and>
   trace (snd (add_to_cart world_cart_201 demo_id demo_buyer)) =
     [Request (TokenGet ''de_de''), Log (SessionTokenIs (JStr ''abc'')),
      Request (CartPost ''de_de'' (JStr ''abc'') demo_id), Log (Body []), Log (CartFailedWith 201)]"
  by (simp add: CART_SUCCESS_CODES_def add_to_cart_def add_to_cart_try_def get_session_token_def
      world_cart_201_def demo_defs op_defs)

subsection \<open>API status\<close>

text \<open>
  When the stored status is OFFLINE, a call with ONLINE logs and emits one back-online
  notification.
\<close>

lemma updateApiStatus_flip:
  assumes "api_status s = OFFLINE" and "sink w (sent s) BackOnline = None"
  shows "updateApiStatus w ONLINE s =
           (Inr (), s\<lparr>sent := sent s + 1, trace := trace s @ [Log ApiBackUp, Notify BackOnline],
                       api_online := Some ONLINE\<rparr>)"
  using assms by (simp add: updateApiStatus_def op_defs)

text \<open>
  C2, at the input where the code departs from it. \<open>updateApiStatus\<close> never changes the
  stored status that its own test reads: it assigns another attribute. On a fresh buyer
  (status ONLINE) a call with OFFLINE leaves the status ONLINE, so the call with ONLINE
  that follows this flip emits nothing.
\<close>

theorem updateApiStatus_leaves_api_status:
  "api_status (snd (updateApiStatus w status s)) = api_status s \<and>
   api_status (snd (updateApiStatus world_down OFFLINE demo_buyer)) = ONLINE \<and>
   api_online (snd (updateApiStatus world_down OFFLINE demo_buyer)) = Some OFFLINE \<and>
   trace (snd (updateApiStatus world_down ONLINE
                 (snd (updateApiStatus world_down OFFLINE demo_buyer)))) = []"
proof -
  have "api_status (snd (updateApiStatus w status s)) = api_status s"
    by (simp add: updateApiStatus_def op_defs Let_def split: option.splits)
  then show ?thesis
    by (simp add: updateApiStatus_def op_defs world_down_def demo_defs)
qed

subsection \<open>Catalog lookup\<close>

text \<open>
  C5, as the code has it. Product-id resolution looks the catalog up under the lowercased
  CLI locale, not under the remapped one: when the family has a display name and the
  catalog has an entry under that locale and the family, the constructor succeeds, the
  vendor locale is the remapped one, and the ids are those of that entry, a list passed
  through unchanged and a single string as a one-element list. For CLI locale de_at
  the vendor locale is de_de with currency EUR, and the lookup is under de_at.
\<close>

theorem new_buyer_catalog_lookup:
  assumes "map_of GPU_DISPLAY_NAMES g = Some long_name"
    and "catalog_entry PRODUCT_IDS (lower l) g = Inr entry"
  shows "(\<exists>b. new_buyer PRODUCT_IDS g l = Inr b \<and> cli_locale b = lower l \<and>
              self_locale b = resolve_locale l \<and>
              product_ids b = (case entry of JArr ids \<Rightarrow> ids | JStr i \<Rightarrow> [JStr i] | _ \<Rightarrow> [])) \<and>
         resolve_locale ''de_at'' = ''de_de'' \<and> currency_of ''de_de'' = ''EUR''"
proof -
  have "lower ''de_at'' = ''de_at''"
    by (simp add: lower_def lower_char_def)
  then have fixed: "resolve_locale ''de_at'' = ''de_de'' \<and> currency_of ''de_de'' = ''EUR''"
    by (simp add: resolve_locale_def map_locales_def currency_of_def CURRENCY_LOCALE_MAP_def)
  from assms have "\<exists>b. new_buyer PRODUCT_IDS g l = Inr b \<and> cli_locale b = lower l \<and>
              self_locale b = resolve_locale l \<and>
              product_ids b = (case entry of JArr ids \<Rightarrow> ids | JStr i \<Rightarrow> [JStr i] | _ \<Rightarrow> [])"
    by (cases entry) (simp_all add: new_buyer_def get_product_ids_def resolve_locale_def)
  with fixed show ?thesis by blast
qed

text \<open>
  In the demo catalog, family 3080 has a list under de_at and family 3090 a single
  string; the CLI locale is given in upper case the second time.
\<close>

theorem new_buyer_catalog_lookup_witness:
  "map_of GPU_DISPLAY_NAMES ''3080'' = Some ''NVIDIA GEFORCE RTX 3080'' \<and>
   catalog_entry demo_catalog (lower ''de_at'') ''3080''
     = Inr (JArr [JStr ''5438792800'', JStr ''5438792801'']) \<and>
   (\<exists>b. new_buyer demo_catalog ''3080'' ''de_at'' = Inr b \<and> cli_locale b = ''de_at'' \<and>
        self_locale b = ''de_de'' \<and> product_ids b = [JStr ''5438792800'', JStr ''5438792801'']) \<and>
   map_of GPU_DISPLAY_NAMES ''3090'' = Some ''NVIDIA GEFORCE RTX 3090'' \<and>
   catalog_entry demo_catalog (lower ''DE_AT'') ''3090'' = Inr (JStr ''5438792700'') \<and>
   (\<exists>b. new_buyer demo_catalog ''3090'' ''DE_AT'' = Inr b \<and> cli_locale b = ''de_at'' \<and>
        self_locale b = ''de_de'' \<and> product_ids b = [JStr ''5438792700''])"
proof -
  have a: "map_of GPU_DISPLAY_NAMES ''3080'' = Some ''NVIDIA GEFORCE RTX 3080''"
    by code_simp
  have b: "catalog_entry demo_catalog (lower ''de_at'') ''3080''
             = Inr (JArr [JStr ''5438792800'', JStr ''5438792801''])"
    by code_simp
  have c: "map_of GPU_DISPLAY_NAMES ''3090'' = Some ''NVIDIA GEFORCE RTX 3090''"
    by code_simp
  have d: "catalog_entry demo_catalog (lower ''DE_AT'') ''3090'' = Inr (JStr ''5438792700'')"
    by code_simp
  have e: "lower ''de_at'' = ''de_at''" "lower ''DE_AT'' = ''de_at''"
    "resolve_locale ''DE_AT'' = ''de_de''"
    by code_simp+
  from new_buyer_catalog_lookup [OF a b] new_buyer_catalog_lookup [OF c d] a b c d e
  show ?thesis by simp
qed

text \<open>
  C5 as stated fails: the demo catalog has a list under de_de/3080 as well, the vendor
  locale of the buyer built for de_at is de_de, and its ids are the ones stored under
  de_at.
\<close>

theorem new_buyer_catalog_lookup_counterexample:
  "new_buyer demo_catalog ''3080'' ''de_at'' = Inr demo_buyer \<and>
   self_locale demo_buyer = ''de_de'' \<and>
   catalog_entry demo_catalog ''de_de'' ''3080'' = Inr (JArr [JStr ''5438792300'']) \<and>
   catalog_entry demo_catalog ''de_at'' ''3080''
     = Inr (JArr [JStr ''5438792800'', JStr ''5438792801'']) \<and>
   product_ids demo_buyer = [JStr ''5438792800'', JStr ''5438792801''] \<and>
   product_ids demo_buyer \<noteq> [JStr ''5438792300'']"
  by (simp add: new_buyer_def get_product_ids_def catalog_entry_def demo_catalog_def
      GPU_DISPLAY_NAMES_def demo_buyer_def map_locales_def lower_def lower_char_def)

subsection \<open>The worker\<close>
































end
